theory Spec2Isabelle
  imports Main "HOL-Library.Sublist"
begin

section \<open>Build-time image optimization cache\<close>

text \<open>
  A shallow embedding of the image optimization module (the functions
  \<^verbatim>\<open>getCacheKey\<close>, \<^verbatim>\<open>optimizeImage\<close>, \<^verbatim>\<open>getOptimizedHeroImage\<close>,
  \<^verbatim>\<open>getOptimizedCardImage\<close> and \<^verbatim>\<open>isValidImagePath\<close>).

  Conventions of the embedding:
  \<^item> a JavaScript \<^verbatim>\<open>number\<close> is an \<open>int\<close>: the embedding covers integer-valued
    numbers (of magnitude below \<open>10^21\<close>, where JavaScript prints them in plain decimal);
    an optional number is an \<open>int option\<close>, \<open>None\<close> standing for \<^verbatim>\<open>undefined\<close>;
  \<^item> the module-level \<^verbatim>\<open>imageCache\<close> and the logging sink are fields of an explicit
    state, threaded through every call; two further fields record, for the sake of
    stating properties, every call of the transcoding capability and every
    \<^verbatim>\<open>imageCache.set\<close>;
  \<^item> the transcoding capability \<^verbatim>\<open>getImage\<close> is a parameter: a function from its
    argument to either a thrown error (\<open>Inl\<close>) or a result (\<open>Inr\<close>);
  \<^item> \<^verbatim>\<open>async\<close> calls are run one after the other, each to completion.
\<close>

subsection \<open>Data model\<close>

datatype ImageFormat = avif | webp | png | jpg | jpeg

record ImageMetadata =
  meta_src :: string
  meta_width :: int
  meta_height :: int
  meta_format :: string

text \<open>The source of a request: a string path or URL, or an imported asset's metadata.\<close>

datatype ImageSource = Path string | Metadata ImageMetadata

record OptimizeImageOptions =
  src :: ImageSource
  width :: "int option"
  height :: "int option"
  format :: "ImageFormat option"
  quality :: "int option"
  alt :: "string option"

text \<open>The second argument of the two wrapper functions.\<close>

record PresetOptions =
  preset_width :: "int option"
  preset_height :: "int option"
  preset_format :: "ImageFormat option"
  preset_quality :: "int option"

text \<open>The argument of \<^verbatim>\<open>getImage\<close>, also echoed in a result's \<^verbatim>\<open>options\<close>.\<close>

record ImageTransform =
  t_src :: ImageSource
  t_width :: "int option"
  t_height :: "int option"
  t_format :: "ImageFormat option"
  t_quality :: "int option"

record Attributes =
  attr_width :: "int option"
  attr_height :: "int option"

record SrcSet =
  srcset_values :: "string list"
  srcset_attribute :: string

record GetImageResult =
  res_src :: string
  attributes :: Attributes
  options :: ImageTransform
  rawOptions :: ImageTransform
  srcSet :: SrcSet

datatype error = Error string

datatype LogEntry = Warn string | Err string error

record State =
  imageCache :: "string \<rightharpoonup> GetImageResult"
  console :: "LogEntry list"
  getImageCalls :: "ImageTransform list"
  cacheWrites :: "(string \<times> GetImageResult) list"

definition emptyState :: State where
  "emptyState = \<lparr>imageCache = Map.empty, console = [], getImageCalls = [], cacheWrites = []\<rparr>"

subsection \<open>JavaScript primitives used by the module\<close>

text \<open>\<^verbatim>\<open>s.startsWith(p)\<close>\<close>

definition startsWith :: "string \<Rightarrow> string \<Rightarrow> bool" where
  "startsWith s p = (take (length p) s = p)"

definition digitChar :: "nat \<Rightarrow> char" where
  "digitChar d = ''0123456789'' ! d"

function natToString :: "nat \<Rightarrow> string" where
  "natToString n =
     (if n < 10 then [digitChar n] else natToString (n div 10) @ [digitChar (n mod 10)])"
  by pat_completeness auto
termination
  by (relation "measure id") auto

declare natToString.simps [simp del]

text \<open>The string a template literal prints for an integer-valued number.\<close>

definition numberToString :: "int \<Rightarrow> string" where
  "numberToString i = (if i < 0 then ''-'' @ natToString (nat (- i)) else natToString (nat i))"

definition formatToString :: "ImageFormat \<Rightarrow> string" where
  "formatToString f =
     (case f of avif \<Rightarrow> ''avif'' | webp \<Rightarrow> ''webp'' | png \<Rightarrow> ''png''
      | jpg \<Rightarrow> ''jpg'' | jpeg \<Rightarrow> ''jpeg'')"

text \<open>Truthiness of an optional number: \<^verbatim>\<open>undefined\<close> and \<open>0\<close> are falsy.\<close>

definition truthy :: "int option \<Rightarrow> bool" where
  "truthy x = (case x of None \<Rightarrow> False | Some n \<Rightarrow> n \<noteq> 0)"

text \<open>\<^verbatim>\<open>x || d\<close> for an optional number \<open>x\<close> and a number \<open>d\<close>.\<close>

definition numOr :: "int option \<Rightarrow> int \<Rightarrow> int" where
  "numOr x d = (case x of None \<Rightarrow> d | Some n \<Rightarrow> if n = 0 then d else n)"

text \<open>\<^verbatim>\<open>f || d\<close> for an optional format: every format name is a non-empty string.\<close>

definition formatOr :: "ImageFormat option \<Rightarrow> ImageFormat \<Rightarrow> ImageFormat" where
  "formatOr f d = (case f of None \<Rightarrow> d | Some g \<Rightarrow> g)"

text \<open>\<^verbatim>\<open>${x || 'auto'}\<close> for an optional number and for an optional format.\<close>

definition numOrAuto :: "int option \<Rightarrow> string" where
  "numOrAuto x = (case x of None \<Rightarrow> ''auto'' | Some n \<Rightarrow> if n = 0 then ''auto'' else numberToString n)"

definition formatOrAuto :: "ImageFormat option \<Rightarrow> string" where
  "formatOrAuto f = (case f of None \<Rightarrow> ''auto'' | Some g \<Rightarrow> formatToString g)"

subsection \<open>Effects: state, exceptions, try and catch\<close>

type_synonym 'a action = "State \<Rightarrow> (error + 'a) \<times> State"

definition ret :: "'a \<Rightarrow> 'a action" where
  "ret x = (\<lambda>st. (Inr x, st))"

definition bind :: "'a action \<Rightarrow> ('a \<Rightarrow> 'b action) \<Rightarrow> 'b action" where
  "bind m f = (\<lambda>st. case m st of (Inl e, st') \<Rightarrow> (Inl e, st') | (Inr x, st') \<Rightarrow> f x st')"

definition try_catch :: "'a action \<Rightarrow> (error \<Rightarrow> 'a action) \<Rightarrow> 'a action" where
  "try_catch body handler =
     (\<lambda>st. case body st of (Inl e, st') \<Rightarrow> handler e st' | (Inr x, st') \<Rightarrow> (Inr x, st'))"

text \<open>\<^verbatim>\<open>imageCache.set(key, result)\<close>\<close>

definition cache_set :: "string \<Rightarrow> GetImageResult \<Rightarrow> unit action" where
  "cache_set key result =
     (\<lambda>st. (Inr (), st\<lparr>imageCache := (imageCache st)(key \<mapsto> result),
                        cacheWrites := cacheWrites st @ [(key, result)]\<rparr>))"

definition console_warn :: "string \<Rightarrow> unit action" where
  "console_warn msg = (\<lambda>st. (Inr (), st\<lparr>console := console st @ [Warn msg]\<rparr>))"

definition console_error :: "string \<Rightarrow> error \<Rightarrow> unit action" where
  "console_error msg e = (\<lambda>st. (Inr (), st\<lparr>console := console st @ [Err msg e]\<rparr>))"

text \<open>\<^verbatim>\<open>await getImage(t)\<close>: the call is recorded, its outcome is the capability's.\<close>

definition await_getImage ::
  "(ImageTransform \<Rightarrow> error + GetImageResult) \<Rightarrow> ImageTransform \<Rightarrow> GetImageResult action" where
  "await_getImage getImage t = (\<lambda>st. (getImage t, st\<lparr>getImageCalls := getImageCalls st @ [t]\<rparr>))"

subsection \<open>The module\<close>

definition srcStr :: "ImageSource \<Rightarrow> string" where
  "srcStr s = (case s of Path p \<Rightarrow> p | Metadata m \<Rightarrow> meta_src m)"

definition getCacheKey :: "OptimizeImageOptions \<Rightarrow> string" where
  "getCacheKey opts =
     srcStr (src opts) @ ''-'' @ numOrAuto (width opts) @ ''-'' @ numOrAuto (height opts)
       @ ''-'' @ formatOrAuto (format opts) @ ''-'' @ numOrAuto (quality opts)"

text \<open>
  The object literal that the remote branch, the missing-dimension branch and the two
  \<^verbatim>\<open>catch\<close> blocks build: \<open>s\<close> is its \<^verbatim>\<open>src\<close>, \<open>w\<close> and \<open>h\<close> the dimensions written to
  \<^verbatim>\<open>attributes\<close>, \<^verbatim>\<open>options\<close> and \<^verbatim>\<open>rawOptions\<close>, and \<open>source\<close> the \<^verbatim>\<open>src\<close> echoed in the
  latter two.
\<close>

definition mockResult :: "string \<Rightarrow> ImageSource \<Rightarrow> int option \<Rightarrow> int option \<Rightarrow> GetImageResult" where
  "mockResult s source w h =
     \<lparr>res_src = s,
      attributes = \<lparr>attr_width = w, attr_height = h\<rparr>,
      options = \<lparr>t_src = source, t_width = w, t_height = h, t_format = None, t_quality = None\<rparr>,
      rawOptions = \<lparr>t_src = source, t_width = w, t_height = h, t_format = None, t_quality = None\<rparr>,
      srcSet = \<lparr>srcset_values = [], srcset_attribute = ''''\<rparr>\<rparr>"

text \<open>
  The object literal passed to \<^verbatim>\<open>getImage\<close>, the same in both \<^verbatim>\<open>try\<close> blocks:
  \<^verbatim>\<open>{src, width, height, format: format || 'webp', quality: quality || 80}\<close>.
\<close>

definition getImageArgs :: "ImageSource \<Rightarrow> OptimizeImageOptions \<Rightarrow> ImageTransform" where
  "getImageArgs source opts =
     \<lparr>t_src = source, t_width = width opts, t_height = height opts,
      t_format = Some (formatOr (format opts) webp),
      t_quality = Some (numOr (quality opts) 80)\<rparr>"

definition optimizeImage ::
  "(ImageTransform \<Rightarrow> error + GetImageResult) \<Rightarrow> OptimizeImageOptions \<Rightarrow> GetImageResult action" where
  "optimizeImage getImage opts =
     (\<lambda>st.
        let cacheKey = getCacheKey opts in
        case imageCache st cacheKey of
          Some cached \<Rightarrow> (Inr cached, st)
        | None \<Rightarrow>
            (case src opts of
               Path p \<Rightarrow>
                 if startsWith p ''http://'' \<or> startsWith p ''https://'' then
                   (let result = mockResult p (Path p)
                          (Some (numOr (width opts) 1200)) (Some (numOr (height opts) 630))
                    in bind (cache_set cacheKey result) (\<lambda>_. ret result)) st
                 else if \<not> truthy (width opts) \<or> \<not> truthy (height opts) then
                   bind (console_warn
                     (''Image optimization: width and height are required for public/ folder images: '' @ p))
                     (\<lambda>_. let result = mockResult p (Path p)
                                  (Some (numOr (width opts) 1200)) (Some (numOr (height opts) 630))
                          in bind (cache_set cacheKey result) (\<lambda>_. ret result)) st
                 else
                   try_catch
                     (bind (await_getImage getImage (getImageArgs (Path p) opts))
                        (\<lambda>result. bind (cache_set cacheKey result) (\<lambda>_. ret result)))
                     (\<lambda>e. bind (console_error (''Error optimizing image '' @ p @ '':'') e)
                        (\<lambda>_. let result = mockResult p (Path p) (width opts) (height opts)
                             in bind (cache_set cacheKey result) (\<lambda>_. ret result))) st
             | Metadata metadata \<Rightarrow>
                 try_catch
                   (bind (await_getImage getImage (getImageArgs (Metadata metadata) opts))
                      (\<lambda>result. bind (cache_set cacheKey result) (\<lambda>_. ret result)))
                   (\<lambda>e. bind (console_error ''Error optimizing image:'' e)
                      (\<lambda>_. let result = mockResult (meta_src metadata) (Metadata metadata)
                                   (Some (numOr (width opts) (meta_width metadata)))
                                   (Some (numOr (height opts) (meta_height metadata)))
                           in bind (cache_set cacheKey result) (\<lambda>_. ret result))) st))"

text \<open>\<^verbatim>\<open>!src\<close> in the wrappers, for a source that is not \<^verbatim>\<open>undefined\<close>: the empty
  string is falsy, an object is not.\<close>

definition falsySource :: "ImageSource \<Rightarrow> bool" where
  "falsySource s = (case s of Path p \<Rightarrow> p = [] | Metadata m \<Rightarrow> False)"

text \<open>\<^verbatim>\<open>options?.width\<close> and its siblings.\<close>

definition optField :: "('a \<Rightarrow> 'b option) \<Rightarrow> 'a option \<Rightarrow> 'b option" where
  "optField f x = (case x of None \<Rightarrow> None | Some r \<Rightarrow> f r)"

text \<open>The request that \<^verbatim>\<open>getOptimizedHeroImage\<close> passes to \<^verbatim>\<open>optimizeImage\<close>.\<close>

definition heroRequest :: "ImageSource \<Rightarrow> PresetOptions option \<Rightarrow> OptimizeImageOptions" where
  "heroRequest s preset =
     \<lparr>src = s,
      width = Some (numOr (optField preset_width preset) 1200),
      height = Some (numOr (optField preset_height preset) 630),
      format = Some (formatOr (optField preset_format preset) webp),
      quality = Some (numOr (optField preset_quality preset) 80),
      alt = None\<rparr>"

definition getOptimizedHeroImage ::
  "(ImageTransform \<Rightarrow> error + GetImageResult) \<Rightarrow> ImageSource option \<Rightarrow> PresetOptions option
     \<Rightarrow> GetImageResult option action" where
  "getOptimizedHeroImage getImage source preset =
     (case source of
        None \<Rightarrow> ret None
      | Some s \<Rightarrow>
          if falsySource s then ret None
          else bind (optimizeImage getImage (heroRequest s preset)) (\<lambda>r. ret (Some r)))"

text \<open>The request that \<^verbatim>\<open>getOptimizedCardImage\<close> passes to \<^verbatim>\<open>optimizeImage\<close>.\<close>

definition cardRequest :: "ImageSource \<Rightarrow> PresetOptions option \<Rightarrow> OptimizeImageOptions" where
  "cardRequest s preset =
     \<lparr>src = s,
      width = Some (numOr (optField preset_width preset) 400),
      height = Some (numOr (optField preset_height preset) 225),
      format = Some (formatOr (optField preset_format preset) webp),
      quality = Some (numOr (optField preset_quality preset) 75),
      alt = None\<rparr>"

definition getOptimizedCardImage ::
  "(ImageTransform \<Rightarrow> error + GetImageResult) \<Rightarrow> ImageSource option \<Rightarrow> PresetOptions option
     \<Rightarrow> GetImageResult option action" where
  "getOptimizedCardImage getImage source preset =
     (case source of
        None \<Rightarrow> ret None
      | Some s \<Rightarrow>
          if falsySource s then ret None
          else bind (optimizeImage getImage (cardRequest s preset)) (\<lambda>r. ret (Some r)))"

definition isValidImagePath :: "string option \<Rightarrow> bool" where
  "isValidImagePath path =
     (case path of
        None \<Rightarrow> False
      | Some p \<Rightarrow>
          if p = [] then False
          else if startsWith p ''http://'' \<or> startsWith p ''https://'' then True
          else if startsWith p ''/'' then True
          else if startsWith p ''./'' \<or> startsWith p ''../'' then True
          else False)"

text \<open>The requests that reach \<^verbatim>\<open>getImage\<close> once the cache has been missed.\<close>

definition reachesGetImage :: "OptimizeImageOptions \<Rightarrow> bool" where
  "reachesGetImage opts =
     (case src opts of
        Path p \<Rightarrow> \<not> (startsWith p ''http://'' \<or> startsWith p ''https://'')
                    \<and> truthy (width opts) \<and> truthy (height opts)
      | Metadata m \<Rightarrow> True)"

text \<open>The result built by the \<^verbatim>\<open>catch\<close> block that such a request ends in.\<close>

definition fallbackResult :: "OptimizeImageOptions \<Rightarrow> GetImageResult" where
  "fallbackResult opts =
     (case src opts of
        Path p \<Rightarrow> mockResult p (Path p) (width opts) (height opts)
      | Metadata m \<Rightarrow> mockResult (meta_src m) (Metadata m)
          (Some (numOr (width opts) (meta_width m))) (Some (numOr (height opts) (meta_height m))))"

text \<open>The message that this \<^verbatim>\<open>catch\<close> block passes to \<^verbatim>\<open>console.error\<close>.\<close>

definition errorMessage :: "OptimizeImageOptions \<Rightarrow> string" where
  "errorMessage opts =
     (case src opts of
        Path p \<Rightarrow> ''Error optimizing image '' @ p @ '':''
      | Metadata m \<Rightarrow> ''Error optimizing image:'')"

subsection \<open>A build as a sequence of calls\<close>

datatype Call =
    Optimize OptimizeImageOptions
  | HeroImage "ImageSource option" "PresetOptions option"
  | CardImage "ImageSource option" "PresetOptions option"

definition runCall :: "(ImageTransform \<Rightarrow> error + GetImageResult) \<Rightarrow> Call \<Rightarrow> State \<Rightarrow> State" where
  "runCall getImage c st =
     (case c of
        Optimize opts \<Rightarrow> snd (optimizeImage getImage opts st)
      | HeroImage source preset \<Rightarrow> snd (getOptimizedHeroImage getImage source preset st)
      | CardImage source preset \<Rightarrow> snd (getOptimizedCardImage getImage source preset st))"

fun runCalls :: "(ImageTransform \<Rightarrow> error + GetImageResult) \<Rightarrow> Call list \<Rightarrow> State \<Rightarrow> State" where
  "runCalls getImage [] st = st"
| "runCalls getImage (c # cs) st = runCalls getImage cs (runCall getImage c st)"

text \<open>What a call hands back to its caller, when it does not throw.\<close>

definition returned :: "(error + 'a) \<times> State \<Rightarrow> 'a option" where
  "returned out = (case fst out of Inl e \<Rightarrow> None | Inr r \<Rightarrow> Some r)"

subsection \<open>Notions of the specification\<close>

text \<open>
  The effective parameters of a request, in the specification's words: the normalized
  source identifier, and width, height, format and quality after defaulting, the defaults
  being those that \<^verbatim>\<open>optimizeImage\<close> applies (1200, 630, webp, 80).
\<close>

definition effectiveParams :: "OptimizeImageOptions \<Rightarrow> string \<times> int \<times> int \<times> ImageFormat \<times> int" where
  "effectiveParams opts =
     (srcStr (src opts), numOr (width opts) 1200, numOr (height opts) 630,
      formatOr (format opts) webp, numOr (quality opts) 80)"

text \<open>
  A numeric parameter as the cache key sees it: an unset parameter and a zero both stand
  for the placeholder, any other number for itself.
\<close>

definition keyParam :: "int option \<Rightarrow> int option" where
  "keyParam x = (if truthy x then x else None)"

text \<open>No source was given to a wrapper: \<^verbatim>\<open>undefined\<close>, or the empty string.\<close>

definition noSource :: "ImageSource option \<Rightarrow> bool" where
  "noSource source = (case source of None \<Rightarrow> True | Some s \<Rightarrow> falsySource s)"

subsection \<open>Concrete capabilities, requests and states\<close>

definition failingGetImage :: "ImageTransform \<Rightarrow> error + GetImageResult" where
  "failingGetImage t = Inl (Error ''transcoding failed'')"

definition encodingGetImage :: "ImageTransform \<Rightarrow> error + GetImageResult" where
  "encodingGetImage t =
     Inr \<lparr>res_src = ''/_astro/encoded.webp'',
          attributes = \<lparr>attr_width = t_width t, attr_height = t_height t\<rparr>,
          options = t, rawOptions = t,
          srcSet = \<lparr>srcset_values = [''/_astro/encoded.webp 2x''],
                    srcset_attribute = ''/_astro/encoded.webp 2x''\<rparr>\<rparr>"

definition reqLocal :: OptimizeImageOptions where
  "reqLocal = \<lparr>src = Path ''/local.png'', width = None, height = None, format = None,
                quality = None, alt = None\<rparr>"

definition reqLocalSized :: OptimizeImageOptions where
  "reqLocalSized = \<lparr>src = Path ''/local.png'', width = Some 400, height = Some 225,
                     format = None, quality = None, alt = None\<rparr>"

definition reqRemote :: OptimizeImageOptions where
  "reqRemote = \<lparr>src = Path ''https://example.com/x.jpg'', width = None, height = None,
                 format = None, quality = None, alt = None\<rparr>"

definition reqPlain :: OptimizeImageOptions where
  "reqPlain = \<lparr>src = Path ''/a.png'', width = Some 400, height = Some 225, format = None,
                quality = None, alt = None\<rparr>"

definition reqExplicit :: OptimizeImageOptions where
  "reqExplicit = \<lparr>src = Path ''/a.png'', width = Some 400, height = Some 225,
                   format = Some webp, quality = Some 80, alt = None\<rparr>"

text \<open>Two requests for two different remote URLs whose cache keys coincide.\<close>

definition reqRemoteDash :: OptimizeImageOptions where
  "reqRemoteDash = \<lparr>src = Path ''https://example.com/x-'', width = Some 1, height = None,
                     format = None, quality = None, alt = None\<rparr>"

definition reqRemoteNeg :: OptimizeImageOptions where
  "reqRemoteNeg = \<lparr>src = Path ''https://example.com/x'', width = Some (- 1), height = None,
                    format = None, quality = None, alt = None\<rparr>"

definition presetCardSize :: PresetOptions where
  "presetCardSize = \<lparr>preset_width = Some 400, preset_height = Some 225,
                      preset_format = None, preset_quality = None\<rparr>"

text \<open>
  The request \<open>reqLocal\<close> with width and quality supplied as zero, and with a width
  only.
\<close>

definition reqLocalZero :: OptimizeImageOptions where
  "reqLocalZero = \<lparr>src = Path ''/local.png'', width = Some 0, height = None, format = None,
                    quality = Some 0, alt = Some ''Logo''\<rparr>"

definition reqLocalWidthOnly :: OptimizeImageOptions where
  "reqLocalWidthOnly = \<lparr>src = Path ''/local.png'', width = Some 400, height = None,
                         format = None, quality = None, alt = None\<rparr>"

text \<open>The states of a build after one call, from the empty cache.\<close>

definition afterLocal :: State where
  "afterLocal = snd (optimizeImage failingGetImage reqLocal emptyState)"

definition afterLocalSized :: State where
  "afterLocalSized = snd (optimizeImage failingGetImage reqLocalSized emptyState)"

definition afterRemoteDash :: State where
  "afterRemoteDash = snd (optimizeImage failingGetImage reqRemoteDash emptyState)"

section \<open>Properties\<close>

subsection \<open>Auxiliary facts\<close>

lemmas action_defs =
  ret_def bind_def try_catch_def cache_set_def console_warn_def console_error_def
  await_getImage_def

lemma startsWith_prefix: "startsWith s p = prefix p s"
proof
  assume "startsWith s p"
  then have "s = p @ drop (length p) s"
    by (metis append_take_drop_id startsWith_def)
  then show "prefix p s"
    by (metis prefixI)
next
  assume "prefix p s"
  then show "startsWith s p"
    by (auto simp: startsWith_def prefix_def)
qed

text \<open>A populated key: the stored result is returned and nothing changes.\<close>

lemma optimizeImage_hit:
  "imageCache st (getCacheKey opts) = Some r \<Longrightarrow> optimizeImage g opts st = (Inr r, st)"
  by (simp add: optimizeImage_def)

text \<open>The four ways a call that misses the cache ends.\<close>

lemma optimizeImage_remote:
  assumes "imageCache st (getCacheKey opts) = None" and "src opts = Path p"
    and "startsWith p ''http://'' \<or> startsWith p ''https://''"
  shows "optimizeImage g opts st =
    (Inr (mockResult p (Path p) (Some (numOr (width opts) 1200)) (Some (numOr (height opts) 630))),
     st\<lparr>imageCache := (imageCache st)(getCacheKey opts \<mapsto>
            mockResult p (Path p) (Some (numOr (width opts) 1200)) (Some (numOr (height opts) 630))),
         cacheWrites := cacheWrites st @ [(getCacheKey opts,
            mockResult p (Path p) (Some (numOr (width opts) 1200)) (Some (numOr (height opts) 630)))]\<rparr>)"
  using assms by (simp add: optimizeImage_def action_defs Let_def)

lemma optimizeImage_missing_dimensions:
  assumes "imageCache st (getCacheKey opts) = None" and "src opts = Path p"
    and "\<not> startsWith p ''http://''" and "\<not> startsWith p ''https://''"
    and "\<not> truthy (width opts) \<or> \<not> truthy (height opts)"
  shows "optimizeImage g opts st =
    (Inr (mockResult p (Path p) (Some (numOr (width opts) 1200)) (Some (numOr (height opts) 630))),
     st\<lparr>console := console st @
           [Warn (''Image optimization: width and height are required for public/ folder images: '' @ p)],
         imageCache := (imageCache st)(getCacheKey opts \<mapsto>
            mockResult p (Path p) (Some (numOr (width opts) 1200)) (Some (numOr (height opts) 630))),
         cacheWrites := cacheWrites st @ [(getCacheKey opts,
            mockResult p (Path p) (Some (numOr (width opts) 1200)) (Some (numOr (height opts) 630)))]\<rparr>)"
  using assms by (simp add: optimizeImage_def action_defs Let_def)

lemma optimizeImage_transcoded:
  assumes "imageCache st (getCacheKey opts) = None" and "reachesGetImage opts"
    and "g (getImageArgs (src opts) opts) = Inr r"
  shows "optimizeImage g opts st =
    (Inr r,
     st\<lparr>getImageCalls := getImageCalls st @ [getImageArgs (src opts) opts],
         imageCache := (imageCache st)(getCacheKey opts \<mapsto> r),
         cacheWrites := cacheWrites st @ [(getCacheKey opts, r)]\<rparr>)"
  using assms
  by (cases "src opts") (auto simp: optimizeImage_def reachesGetImage_def action_defs Let_def)

lemma optimizeImage_failed:
  assumes "imageCache st (getCacheKey opts) = None" and "reachesGetImage opts"
    and "g (getImageArgs (src opts) opts) = Inl e"
  shows "optimizeImage g opts st =
    (Inr (fallbackResult opts),
     st\<lparr>getImageCalls := getImageCalls st @ [getImageArgs (src opts) opts],
         console := console st @ [Err (errorMessage opts) e],
         imageCache := (imageCache st)(getCacheKey opts \<mapsto> fallbackResult opts),
         cacheWrites := cacheWrites st @ [(getCacheKey opts, fallbackResult opts)]\<rparr>)"
  using assms
  by (cases "src opts")
    (auto simp: optimizeImage_def reachesGetImage_def fallbackResult_def errorMessage_def
       action_defs Let_def)

lemma miss_cases:
  obtains (remote) p where "src opts = Path p"
      and "startsWith p ''http://'' \<or> startsWith p ''https://''"
  | (missing) p where "src opts = Path p"
      and "\<not> startsWith p ''http://''" and "\<not> startsWith p ''https://''"
      and "\<not> truthy (width opts) \<or> \<not> truthy (height opts)"
  | (reaches) "reachesGetImage opts"
  by (cases "src opts") (auto simp: reachesGetImage_def)

text \<open>
  What any call does to the cache: it returns a result, the key of the request maps to
  that result afterwards, every other key is untouched, and \<^verbatim>\<open>imageCache.set\<close> has been
  called once if the key was missing and not at all otherwise.
\<close>

lemma optimizeImage_effect:
  "\<exists>r st'. optimizeImage g opts st = (Inr r, st')
     \<and> imageCache st' (getCacheKey opts) = Some r
     \<and> (\<forall>k. k \<noteq> getCacheKey opts \<longrightarrow> imageCache st' k = imageCache st k)
     \<and> cacheWrites st' = cacheWrites st @
           (if imageCache st (getCacheKey opts) = None then [(getCacheKey opts, r)] else [])"
proof (cases "imageCache st (getCacheKey opts)")
  case (Some r)
  then have "optimizeImage g opts st = (Inr r, st)"
    by (rule optimizeImage_hit)
  with Some show ?thesis
    by simp
next
  case None
  show ?thesis
  proof (cases rule: miss_cases [of opts])
    case (remote p)
    from optimizeImage_remote [OF None remote, of g] show ?thesis
      by (simp add: None)
  next
    case (missing p)
    from optimizeImage_missing_dimensions [OF None missing, of g] show ?thesis
      by (simp add: None)
  next
    case reaches
    show ?thesis
    proof (cases "g (getImageArgs (src opts) opts)")
      case (Inl e)
      from optimizeImage_failed [where g = g, OF None reaches Inl] show ?thesis
        by (simp add: None)
    next
      case (Inr r)
      from optimizeImage_transcoded [where g = g, OF None reaches Inr] show ?thesis
        by (simp add: None)
    qed
  qed
qed

text \<open>
  A call invokes the transcoding capability exactly when it misses the cache with a
  request that reaches \<^verbatim>\<open>getImage\<close>.
\<close>

lemma getImage_called_iff:
  "(getImageCalls (snd (optimizeImage g opts st)) \<noteq> getImageCalls st)
     = (imageCache st (getCacheKey opts) = None \<and> reachesGetImage opts)"
proof (cases "imageCache st (getCacheKey opts)")
  case (Some r)
  then show ?thesis
    by (simp add: optimizeImage_hit)
next
  case None
  show ?thesis
  proof (cases rule: miss_cases [of opts])
    case (remote p)
    from optimizeImage_remote [OF None remote, of g] remote show ?thesis
      by (simp add: reachesGetImage_def)
  next
    case (missing p)
    from optimizeImage_missing_dimensions [OF None missing, of g] missing show ?thesis
      by (auto simp: reachesGetImage_def)
  next
    case reaches
    show ?thesis
    proof (cases "g (getImageArgs (src opts) opts)")
      case (Inl e)
      from optimizeImage_failed [where g = g, OF None reaches Inl] None reaches show ?thesis
        by simp
    next
      case (Inr r)
      from optimizeImage_transcoded [where g = g, OF None reaches Inr] None reaches show ?thesis
        by simp
    qed
  qed
qed

lemma optimizeImage_keeps_entries:
  assumes "imageCache st k = Some r"
  shows "imageCache (snd (optimizeImage g opts st)) k = Some r"
proof (cases "k = getCacheKey opts")
  case True
  with assms show ?thesis
    by (simp add: optimizeImage_hit)
next
  case False
  obtain r' st' where "optimizeImage g opts st = (Inr r', st')"
    and "\<forall>k. k \<noteq> getCacheKey opts \<longrightarrow> imageCache st' k = imageCache st k"
    using optimizeImage_effect [of g opts st] by blast
  with False assms show ?thesis
    by simp
qed

lemma snd_ret: "snd (ret x st) = st"
  by (simp add: ret_def)

lemma snd_bind_ret: "snd (bind m (\<lambda>r. ret (f r)) st) = snd (m st)"
  by (simp add: bind_def ret_def split: prod.splits sum.splits)

lemma runCall_keeps_entries:
  assumes "imageCache st k = Some r"
  shows "imageCache (runCall g c st) k = Some r"
proof (cases c)
  case (Optimize opts)
  with assms show ?thesis
    by (simp add: runCall_def optimizeImage_keeps_entries)
next
  case (HeroImage source preset)
  with assms show ?thesis
    by (cases source)
      (simp_all add: runCall_def getOptimizedHeroImage_def snd_bind_ret
         optimizeImage_keeps_entries snd_ret)
next
  case (CardImage source preset)
  with assms show ?thesis
    by (cases source)
      (simp_all add: runCall_def getOptimizedCardImage_def snd_bind_ret
         optimizeImage_keeps_entries snd_ret)
qed

lemma runCalls_keeps_entries:
  "imageCache st k = Some r \<Longrightarrow> imageCache (runCalls g cs st) k = Some r"
  by (induction cs arbitrary: st) (simp_all add: runCall_keeps_entries)

lemma numOrAuto_keyParam: "keyParam x = keyParam y \<Longrightarrow> numOrAuto x = numOrAuto y"
  by (auto simp: keyParam_def truthy_def numOrAuto_def split: option.splits if_splits)

text \<open>The cache keys of the concrete requests.\<close>

lemmas key_defs =
  getCacheKey_def srcStr_def numOrAuto_def formatOrAuto_def formatToString_def
  numberToString_def natToString.simps digitChar_def

lemma key_reqLocalSized: "getCacheKey reqLocalSized = ''/local.png-400-225-auto-auto''"
  by (simp add: reqLocalSized_def key_defs)

lemma key_reqPlain: "getCacheKey reqPlain = ''/a.png-400-225-auto-auto''"
  by (simp add: reqPlain_def key_defs)

lemma key_reqExplicit: "getCacheKey reqExplicit = ''/a.png-400-225-webp-80''"
  by (simp add: reqExplicit_def key_defs)

lemma key_reqRemoteDash: "getCacheKey reqRemoteDash = ''https://example.com/x--1-auto-auto-auto''"
  by (simp add: reqRemoteDash_def key_defs)

lemma key_reqRemoteNeg: "getCacheKey reqRemoteNeg = ''https://example.com/x--1-auto-auto-auto''"
  by (simp add: reqRemoteNeg_def key_defs)

lemma miss_emptyState: "imageCache emptyState k = None"
  by (simp add: emptyState_def)

subsection \<open>Cache keys\<close>

text \<open>
  Claim C1, as amended. Two requests whose normalized source identifiers are equal and
  whose width, height, format and quality are equal as supplied, an unset or zero number
  standing for the placeholder \<^verbatim>\<open>auto\<close> and no default value being applied, have the
  same cache key. Once \<^verbatim>\<open>optimizeImage\<close> has run for the first, the result it returned
  is stored under that key, and a call for the second returns this stored result and
  changes nothing: no cache write, no call of the transcoding capability, no log entry.
\<close>

theorem C1_equal_key_parameters:
  assumes "srcStr (src a) = srcStr (src b)"
    and "keyParam (width a) = keyParam (width b)"
    and "keyParam (height a) = keyParam (height b)"
    and "format a = format b"
    and "keyParam (quality a) = keyParam (quality b)"
  shows "getCacheKey a = getCacheKey b
    \<and> (\<exists>r st'. optimizeImage g a st = (Inr r, st')
          \<and> imageCache st' (getCacheKey a) = Some r
          \<and> imageCache st' (getCacheKey b) = Some r
          \<and> optimizeImage g' b st' = (Inr r, st'))"
proof -
  note numOrAuto_keyParam [OF assms(2)] numOrAuto_keyParam [OF assms(3)]
    numOrAuto_keyParam [OF assms(5)]
  with assms(1,4) have key: "getCacheKey a = getCacheKey b"
    by (simp add: getCacheKey_def)
  obtain r st' where run: "optimizeImage g a st = (Inr r, st')"
    and stored: "imageCache st' (getCacheKey a) = Some r"
    using optimizeImage_effect [of g a st] by blast
  from stored key have stored': "imageCache st' (getCacheKey b) = Some r"
    by simp
  then have "optimizeImage g' b st' = (Inr r, st')"
    by (rule optimizeImage_hit)
  with key run stored stored' show ?thesis
    by blast
qed

text \<open>
  Two different requests with equal key parameters: one leaves width and quality unset,
  the other supplies both as zero and carries an \<^verbatim>\<open>alt\<close> text.
\<close>

theorem C1_equal_key_parameters_witness:
  "reqLocal \<noteq> reqLocalZero
   \<and> srcStr (src reqLocal) = srcStr (src reqLocalZero)
   \<and> keyParam (width reqLocal) = keyParam (width reqLocalZero)
   \<and> keyParam (height reqLocal) = keyParam (height reqLocalZero)
   \<and> format reqLocal = format reqLocalZero
   \<and> keyParam (quality reqLocal) = keyParam (quality reqLocalZero)
   \<and> getCacheKey reqLocal = getCacheKey reqLocalZero
   \<and> (\<exists>r st'. optimizeImage encodingGetImage reqLocal emptyState = (Inr r, st')
          \<and> imageCache st' (getCacheKey reqLocal) = Some r
          \<and> imageCache st' (getCacheKey reqLocalZero) = Some r
          \<and> optimizeImage failingGetImage reqLocalZero st' = (Inr r, st'))"
proof -
  have h0: "reqLocal \<noteq> reqLocalZero"
    by (simp add: reqLocal_def reqLocalZero_def)
  have h1: "srcStr (src reqLocal) = srcStr (src reqLocalZero)"
    by (simp add: reqLocal_def reqLocalZero_def)
  have h2: "keyParam (width reqLocal) = keyParam (width reqLocalZero)"
    by (simp add: reqLocal_def reqLocalZero_def keyParam_def truthy_def)
  have h3: "keyParam (height reqLocal) = keyParam (height reqLocalZero)"
    by (simp add: reqLocal_def reqLocalZero_def)
  have h4: "format reqLocal = format reqLocalZero"
    by (simp add: reqLocal_def reqLocalZero_def)
  have h5: "keyParam (quality reqLocal) = keyParam (quality reqLocalZero)"
    by (simp add: reqLocal_def reqLocalZero_def keyParam_def truthy_def)
  note c = C1_equal_key_parameters [where g = encodingGetImage and g' = failingGetImage
      and st = emptyState, OF h1 h2 h3 h4 h5]
  show ?thesis
    by (rule conjI [OF h0 conjI [OF h1 conjI [OF h2 conjI [OF h3 conjI [OF h4 conjI [OF h5 c]]]]]])
qed

text \<open>
  The claim as stated (equal effective parameters give equal keys, however the defaults
  were supplied) fails: a request that leaves format and quality unset and the request
  that supplies the defaults webp and 80 explicitly, which is the request the hero
  wrapper builds for the overrides 400 by 225, have the same effective parameters and
  different cache keys.
\<close>

theorem C1_counterexample:
  "effectiveParams reqPlain = effectiveParams reqExplicit
   \<and> heroRequest (Path ''/a.png'') (Some presetCardSize) = reqExplicit
   \<and> getCacheKey reqPlain = ''/a.png-400-225-auto-auto''
   \<and> getCacheKey reqExplicit = ''/a.png-400-225-webp-80''
   \<and> getCacheKey reqPlain \<noteq> getCacheKey reqExplicit"
proof -
  have "effectiveParams reqPlain = effectiveParams reqExplicit"
    by (simp add: effectiveParams_def reqPlain_def reqExplicit_def numOr_def formatOr_def)
  moreover have "heroRequest (Path ''/a.png'') (Some presetCardSize) = reqExplicit"
    by (simp add: heroRequest_def reqExplicit_def presetCardSize_def optField_def numOr_def
        formatOr_def)
  ultimately show ?thesis
    by (simp add: key_reqPlain key_reqExplicit)
qed

text \<open>
  Claim C10. The \<^verbatim>\<open>alt\<close> option influences neither the cache key nor anything
  \<^verbatim>\<open>optimizeImage\<close> does: two requests that differ in \<^verbatim>\<open>alt\<close> only have the same key,
  and from the same state they return the same result and leave the same cache, log and
  call records.
\<close>

theorem C10_alt_is_ignored:
  "getCacheKey (opts\<lparr>alt := a\<rparr>) = getCacheKey opts
   \<and> optimizeImage g (opts\<lparr>alt := a\<rparr>) st = optimizeImage g opts st"
  by (simp add: optimizeImage_def getCacheKey_def getImageArgs_def Let_def
      cong: option.case_cong ImageSource.case_cong if_cong)

theorem C10_alt_is_ignored_witness:
  "getCacheKey (reqLocalSized\<lparr>alt := Some ''A diagram''\<rparr>) = getCacheKey reqLocalSized
   \<and> optimizeImage encodingGetImage (reqLocalSized\<lparr>alt := Some ''A diagram''\<rparr>) emptyState
     = optimizeImage encodingGetImage reqLocalSized emptyState"
  by (rule C10_alt_is_ignored)

subsection \<open>Memoization\<close>

text \<open>
  Claim C2. Once the entry for the key of a request \<open>R\<close> is populated with a result
  \<open>r\<close>, no later call of the build overwrites it: after any sequence of calls of
  \<^verbatim>\<open>optimizeImage\<close> and of the two wrappers, run one after the other, the key still maps
  to \<open>r\<close>, and a call \<^verbatim>\<open>optimizeImage(R)\<close> then returns \<open>r\<close> and leaves the state as it
  was, so that it writes nothing to the cache and does not invoke the transcoding
  capability.
\<close>

theorem C2_populated_entry_is_kept:
  assumes "imageCache st (getCacheKey R) = Some r"
  shows "imageCache (runCalls g cs st) (getCacheKey R) = Some r
    \<and> optimizeImage g' R (runCalls g cs st) = (Inr r, runCalls g cs st)
    \<and> cacheWrites (snd (optimizeImage g' R (runCalls g cs st))) = cacheWrites (runCalls g cs st)
    \<and> getImageCalls (snd (optimizeImage g' R (runCalls g cs st)))
        = getImageCalls (runCalls g cs st)"
proof -
  from assms have kept: "imageCache (runCalls g cs st) (getCacheKey R) = Some r"
    by (rule runCalls_keeps_entries)
  then have "optimizeImage g' R (runCalls g cs st) = (Inr r, runCalls g cs st)"
    by (rule optimizeImage_hit)
  with kept show ?thesis
    by simp
qed

text \<open>
  The entry stored by a first call for the sized local image survives a later call for
  another image and a call of the hero wrapper, and the second call for it changes
  nothing.
\<close>

theorem C2_populated_entry_is_kept_witness:
  "imageCache afterLocalSized (getCacheKey reqLocalSized)
     = Some (mockResult ''/local.png'' (Path ''/local.png'') (Some 400) (Some 225))
   \<and> imageCache (runCalls encodingGetImage
          [Optimize reqRemote, HeroImage (Some (Path ''/local.png'')) None] afterLocalSized)
        (getCacheKey reqLocalSized)
     = Some (mockResult ''/local.png'' (Path ''/local.png'') (Some 400) (Some 225))
   \<and> optimizeImage encodingGetImage reqLocalSized
        (runCalls encodingGetImage
          [Optimize reqRemote, HeroImage (Some (Path ''/local.png'')) None] afterLocalSized)
     = (Inr (mockResult ''/local.png'' (Path ''/local.png'') (Some 400) (Some 225)),
        runCalls encodingGetImage
          [Optimize reqRemote, HeroImage (Some (Path ''/local.png'')) None] afterLocalSized)"
proof -
  have reaches: "reachesGetImage reqLocalSized"
    by (simp add: reachesGetImage_def reqLocalSized_def startsWith_def truthy_def)
  have throws: "failingGetImage (getImageArgs (src reqLocalSized) reqLocalSized)
      = Inl (Error ''transcoding failed'')"
    by (simp add: failingGetImage_def)
  have "fallbackResult reqLocalSized
      = mockResult ''/local.png'' (Path ''/local.png'') (Some 400) (Some 225)"
    by (simp add: fallbackResult_def reqLocalSized_def)
  with optimizeImage_failed [where g = failingGetImage, OF miss_emptyState reaches throws]
  have h: "imageCache afterLocalSized (getCacheKey reqLocalSized)
     = Some (mockResult ''/local.png'' (Path ''/local.png'') (Some 400) (Some 225))"
    by (simp add: afterLocalSized_def)
  note c = C2_populated_entry_is_kept [OF h, of encodingGetImage
      "[Optimize reqRemote, HeroImage (Some (Path ''/local.png'')) None]" encodingGetImage]
  show ?thesis
    by (rule conjI [OF h conjI [OF conjunct1 [OF c] conjunct1 [OF conjunct2 [OF c]]]])
qed

text \<open>
  Claim C7, as amended. Every call of \<^verbatim>\<open>optimizeImage\<close> returns a result; afterwards the
  cache maps the key of the request to the returned result, and no entry for any other
  key has been added or modified. A call that finds its key missing makes exactly one
  cache insertion, of the returned result under that key; a call that finds its key
  populated makes none.
\<close>

theorem C7_one_entry_per_call:
  "\<exists>r st'. optimizeImage g opts st = (Inr r, st')
     \<and> imageCache st' (getCacheKey opts) = Some r
     \<and> (\<forall>k. k \<noteq> getCacheKey opts \<longrightarrow> imageCache st' k = imageCache st k)
     \<and> cacheWrites st' = cacheWrites st @
           (if imageCache st (getCacheKey opts) = None then [(getCacheKey opts, r)] else [])"
  by (rule optimizeImage_effect)

theorem C7_one_entry_per_call_witness:
  "\<exists>r st'. optimizeImage encodingGetImage reqLocalSized emptyState = (Inr r, st')
     \<and> imageCache st' ''/local.png-400-225-auto-auto'' = Some r
     \<and> (\<forall>k. k \<noteq> ''/local.png-400-225-auto-auto'' \<longrightarrow> imageCache st' k = None)
     \<and> cacheWrites st' = [(''/local.png-400-225-auto-auto'', r)]"
  using C7_one_entry_per_call [of encodingGetImage reqLocalSized emptyState]
  by (simp add: key_reqLocalSized miss_emptyState) (simp add: emptyState_def)

text \<open>
  The claim as stated (every execution path ends with exactly one cache insertion) fails
  on the path that finds the key populated: the second call for the sized local image
  makes no insertion. After the first call one insertion is on record, and after the
  second call still one.
\<close>

theorem C7_counterexample:
  "length (cacheWrites afterLocalSized) = 1
   \<and> length (cacheWrites (snd (optimizeImage failingGetImage reqLocalSized afterLocalSized))) = 1
   \<and> length (cacheWrites (snd (optimizeImage failingGetImage reqLocalSized afterLocalSized)))
       \<noteq> length (cacheWrites afterLocalSized) + 1"
proof -
  have reaches: "reachesGetImage reqLocalSized"
    by (simp add: reachesGetImage_def reqLocalSized_def startsWith_def truthy_def)
  have throws: "failingGetImage (getImageArgs (src reqLocalSized) reqLocalSized)
      = Inl (Error ''transcoding failed'')"
    by (simp add: failingGetImage_def)
  note first = optimizeImage_failed [where g = failingGetImage, OF miss_emptyState reaches throws]
  from first have writes: "length (cacheWrites afterLocalSized) = 1"
    by (simp add: afterLocalSized_def emptyState_def)
  from first have "imageCache afterLocalSized (getCacheKey reqLocalSized)
      = Some (fallbackResult reqLocalSized)"
    by (simp add: afterLocalSized_def)
  then have "optimizeImage failingGetImage reqLocalSized afterLocalSized
      = (Inr (fallbackResult reqLocalSized), afterLocalSized)"
    by (rule optimizeImage_hit)
  with writes show ?thesis
    by simp
qed

subsection \<open>Failure semantics\<close>

text \<open>
  Claim C3. No call propagates an exception: \<^verbatim>\<open>optimizeImage\<close> always returns a
  result, whatever the request, the state and the behaviour of the transcoding
  capability (which may throw on any argument), and each wrapper returns either a result
  or \<^verbatim>\<open>null\<close>, \<^verbatim>\<open>null\<close> exactly when no source was given.
\<close>

theorem C3_no_exception_escapes:
  "(\<exists>r. fst (optimizeImage g opts st) = Inr r)
   \<and> (\<exists>r. fst (getOptimizedHeroImage g source preset st) = Inr r
          \<and> (r = None) = noSource source)
   \<and> (\<exists>r. fst (getOptimizedCardImage g source preset st) = Inr r
          \<and> (r = None) = noSource source)"
proof -
  have run: "\<exists>r. fst (optimizeImage g' opts' st) = Inr r" for g' opts'
    using optimizeImage_effect [of g' opts' st] by auto
  have wrap: "\<exists>r. fst (bind (optimizeImage g' opts') (\<lambda>r. ret (Some r)) st) = Inr r \<and> r \<noteq> None"
    for g' opts'
    using optimizeImage_effect [of g' opts' st] by (auto simp: bind_def ret_def)
  have hero: "\<exists>r. fst (getOptimizedHeroImage g source preset st) = Inr r
      \<and> (r = None) = noSource source"
    using wrap [of g "heroRequest (the source) preset"]
    by (cases source) (auto simp: getOptimizedHeroImage_def noSource_def ret_def)
  have card: "\<exists>r. fst (getOptimizedCardImage g source preset st) = Inr r
      \<and> (r = None) = noSource source"
    using wrap [of g "cardRequest (the source) preset"]
    by (cases source) (auto simp: getOptimizedCardImage_def noSource_def ret_def)
  from run hero card show ?thesis
    by simp
qed

theorem C3_no_exception_escapes_witness:
  "(\<exists>r. fst (optimizeImage failingGetImage reqLocalSized emptyState) = Inr r)
   \<and> (\<exists>r. fst (getOptimizedHeroImage failingGetImage (Some (Path ''/local.png'')) None
                 emptyState) = Inr r
          \<and> (r = None) = noSource (Some (Path ''/local.png'')))
   \<and> (\<exists>r. fst (getOptimizedCardImage failingGetImage (Some (Path ''/local.png'')) None
                 emptyState) = Inr r
          \<and> (r = None) = noSource (Some (Path ''/local.png'')))"
  by (rule C3_no_exception_escapes)

text \<open>
  Claim C8. Called with an absent source, both wrappers return \<^verbatim>\<open>null\<close> and leave the
  state as it was: no cache entry is created, no call of \<^verbatim>\<open>optimizeImage\<close> or of the
  transcoding capability has left a trace in the cache, the log or the call records.
\<close>

theorem C8_absent_source:
  "getOptimizedHeroImage g None preset st = (Inr None, st)
   \<and> getOptimizedCardImage g None preset st = (Inr None, st)"
  by (simp add: getOptimizedHeroImage_def getOptimizedCardImage_def ret_def)

theorem C8_absent_source_witness:
  "getOptimizedHeroImage encodingGetImage None (Some presetCardSize) afterLocal
     = (Inr None, afterLocal)
   \<and> getOptimizedCardImage encodingGetImage None (Some presetCardSize) afterLocal
     = (Inr None, afterLocal)"
  by (rule C8_absent_source)

subsection \<open>Classification of a request that misses the cache\<close>

text \<open>
  Once a call has stored the result it returned under the key of its request, every
  later call for the request, after any sequence of other calls, returns that same result
  and changes nothing.
\<close>

lemma later_calls_return_stored:
  assumes "optimizeImage g opts st = (Inr res, st')"
    and "imageCache st' (getCacheKey opts) = Some res"
  shows "optimizeImage g'' opts (runCalls g' cs st') = (Inr res, runCalls g' cs st')"
proof -
  from assms(2) have "imageCache (runCalls g' cs st') (getCacheKey opts) = Some res"
    by (rule runCalls_keeps_entries)
  then show ?thesis
    by (rule optimizeImage_hit)
qed

text \<open>
  For a request whose source is an absolute remote URL string, no call invokes the
  transcoding capability; the call that misses the cache returns and stores the
  pass-through result for the input URL, with the requested dimensions or the defaults
  1200 and 630 and an empty source-set, and so does every later call for the request.
\<close>

lemma remote_never_transcoded:
  assumes "src opts = Path p"
    and "startsWith p ''http://'' \<or> startsWith p ''https://''"
  shows "getImageCalls (snd (optimizeImage g opts st)) = getImageCalls st"
proof (cases "imageCache st (getCacheKey opts)")
  case None
  from optimizeImage_remote [OF None assms, of g] show ?thesis
    by simp
next
  case (Some r)
  then show ?thesis
    by (simp add: optimizeImage_hit)
qed

lemma remote_pass_through:
  assumes "src opts = Path p"
    and "startsWith p ''http://'' \<or> startsWith p ''https://''"
    and "imageCache st (getCacheKey opts) = None"
  shows "\<exists>res st'. optimizeImage g opts st = (Inr res, st')
     \<and> res_src res = p
     \<and> attr_width (attributes res) = Some (numOr (width opts) 1200)
     \<and> attr_height (attributes res) = Some (numOr (height opts) 630)
     \<and> srcset_values (srcSet res) = [] \<and> srcset_attribute (srcSet res) = []
     \<and> imageCache st' (getCacheKey opts) = Some res
     \<and> console st' = console st \<and> getImageCalls st' = getImageCalls st
     \<and> (\<forall>cs. optimizeImage g'' opts (runCalls g' cs st') = (Inr res, runCalls g' cs st'))"
proof -
  let ?res = "mockResult p (Path p) (Some (numOr (width opts) 1200))
      (Some (numOr (height opts) 630))"
  let ?st' = "st\<lparr>imageCache := (imageCache st)(getCacheKey opts \<mapsto> ?res),
      cacheWrites := cacheWrites st @ [(getCacheKey opts, ?res)]\<rparr>"
  have first: "optimizeImage g opts st = (Inr ?res, ?st')"
    using assms(3,1,2) by (rule optimizeImage_remote)
  have stored: "imageCache ?st' (getCacheKey opts) = Some ?res"
    by simp
  have later: "\<forall>cs. optimizeImage g'' opts (runCalls g' cs ?st') = (Inr ?res, runCalls g' cs ?st')"
    using later_calls_return_stored [OF first stored] by blast
  have shape: "res_src ?res = p"
    "attr_width (attributes ?res) = Some (numOr (width opts) 1200)"
    "attr_height (attributes ?res) = Some (numOr (height opts) 630)"
    "srcset_values (srcSet ?res) = []" "srcset_attribute (srcSet ?res) = []"
    by (simp_all add: mockResult_def)
  have quiet: "console ?st' = console st" "getImageCalls ?st' = getImageCalls st"
    by simp_all
  from first stored later shape quiet show ?thesis
    by blast
qed

text \<open>
  Claim C6. The claim holds of every call that misses the cache and of every later call
  for the same request (\<open>remote_never_transcoded\<close>, \<open>remote_pass_through\<close>). The code
  breaks it where two different requests have the same cache key, which joins the source
  and the four parameters with \<^verbatim>\<open>-\<close>: the requests for \<^verbatim>\<open>https://example.com/x-\<close> with
  width 1 and for \<^verbatim>\<open>https://example.com/x\<close> with width \<open>-1\<close> both have the key
  \<^verbatim>\<open>https://example.com/x--1-auto-auto-auto\<close>. After a call for the first, the call for
  the second returns the result stored for the first, whose \<^verbatim>\<open>src\<close> is
  \<^verbatim>\<open>https://example.com/x-\<close> and whose width is 1, and stores nothing.
\<close>

theorem C6_key_collision:
  "src reqRemoteNeg = Path ''https://example.com/x''
   \<and> width reqRemoteNeg = Some (- 1)
   \<and> getCacheKey reqRemoteDash = ''https://example.com/x--1-auto-auto-auto''
   \<and> getCacheKey reqRemoteNeg = ''https://example.com/x--1-auto-auto-auto''
   \<and> optimizeImage failingGetImage reqRemoteNeg afterRemoteDash
       = (Inr (mockResult ''https://example.com/x-'' (Path ''https://example.com/x-'')
                 (Some 1) (Some 630)),
          afterRemoteDash)"
proof -
  have h1: "src reqRemoteDash = Path ''https://example.com/x-''"
    by (simp add: reqRemoteDash_def)
  have h2: "startsWith ''https://example.com/x-'' ''http://''
      \<or> startsWith ''https://example.com/x-'' ''https://''"
    by (simp add: startsWith_def)
  have dims: "numOr (width reqRemoteDash) 1200 = 1" "numOr (height reqRemoteDash) 630 = 630"
    by (simp_all add: reqRemoteDash_def numOr_def)
  from optimizeImage_remote [OF miss_emptyState h1 h2, of failingGetImage]
  have "imageCache afterRemoteDash (getCacheKey reqRemoteNeg)
      = Some (mockResult ''https://example.com/x-'' (Path ''https://example.com/x-'')
          (Some 1) (Some 630))"
    by (simp add: afterRemoteDash_def key_reqRemoteDash key_reqRemoteNeg dims)
  then have "optimizeImage failingGetImage reqRemoteNeg afterRemoteDash
      = (Inr (mockResult ''https://example.com/x-'' (Path ''https://example.com/x-'')
          (Some 1) (Some 630)), afterRemoteDash)"
    by (rule optimizeImage_hit)
  moreover have "src reqRemoteNeg = Path ''https://example.com/x''"
    and "width reqRemoteNeg = Some (- 1)"
    by (simp_all add: reqRemoteNeg_def)
  ultimately show ?thesis
    using key_reqRemoteDash key_reqRemoteNeg by simp
qed

text \<open>The result handed back for the URL \<^verbatim>\<open>https://example.com/x\<close> has another \<^verbatim>\<open>src\<close>.\<close>

theorem C6_key_collision_witness:
  "map_option res_src (returned (optimizeImage failingGetImage reqRemoteNeg afterRemoteDash))
     = Some ''https://example.com/x-''
   \<and> map_option res_src (returned (optimizeImage failingGetImage reqRemoteNeg afterRemoteDash))
     \<noteq> Some ''https://example.com/x''
   \<and> map_option (attr_width \<circ> attributes)
        (returned (optimizeImage failingGetImage reqRemoteNeg afterRemoteDash))
     = Some (Some 1)"
  using C6_key_collision by (simp add: returned_def mockResult_def)

text \<open>
  Claim C4, as amended. For a request whose source is a local path string and whose
  width or height is lacking (unset, or zero), the call that finds the key of the
  request not yet populated emits exactly one diagnostic warning, does not invoke the
  transcoding capability, and returns, and stores under that key, a pass-through result
  with an empty source-set whose width is the requested width or else the default 1200
  and whose height is the requested height or else the default 630. Every later call for
  the request, after any sequence of other calls, returns that same result and changes
  nothing: it emits no warning and does not invoke the capability.
\<close>

theorem C4_missing_dimensions:
  assumes "src opts = Path p"
    and "\<not> startsWith p ''http://''" and "\<not> startsWith p ''https://''"
    and "\<not> truthy (width opts) \<or> \<not> truthy (height opts)"
    and "imageCache st (getCacheKey opts) = None"
  shows "\<exists>res st'. optimizeImage g opts st = (Inr res, st')
     \<and> console st' = console st @
          [Warn (''Image optimization: width and height are required for public/ folder images: '' @ p)]
     \<and> getImageCalls st' = getImageCalls st
     \<and> res_src res = p
     \<and> attr_width (attributes res) = Some (numOr (width opts) 1200)
     \<and> attr_height (attributes res) = Some (numOr (height opts) 630)
     \<and> (\<not> truthy (width opts) \<longrightarrow> attr_width (attributes res) = Some 1200)
     \<and> (\<not> truthy (height opts) \<longrightarrow> attr_height (attributes res) = Some 630)
     \<and> srcset_values (srcSet res) = [] \<and> srcset_attribute (srcSet res) = []
     \<and> imageCache st' (getCacheKey opts) = Some res
     \<and> (\<forall>cs. optimizeImage g'' opts (runCalls g' cs st') = (Inr res, runCalls g' cs st'))"
proof -
  let ?res = "mockResult p (Path p) (Some (numOr (width opts) 1200))
      (Some (numOr (height opts) 630))"
  let ?st' = "st\<lparr>console := console st @
        [Warn (''Image optimization: width and height are required for public/ folder images: '' @ p)],
      imageCache := (imageCache st)(getCacheKey opts \<mapsto> ?res),
      cacheWrites := cacheWrites st @ [(getCacheKey opts, ?res)]\<rparr>"
  have first: "optimizeImage g opts st = (Inr ?res, ?st')"
    using assms(5,1,2,3,4) by (rule optimizeImage_missing_dimensions)
  have stored: "imageCache ?st' (getCacheKey opts) = Some ?res"
    by simp
  have later: "\<forall>cs. optimizeImage g'' opts (runCalls g' cs ?st') = (Inr ?res, runCalls g' cs ?st')"
    using later_calls_return_stored [OF first stored] by blast
  have shape: "res_src ?res = p"
    "attr_width (attributes ?res) = Some (numOr (width opts) 1200)"
    "attr_height (attributes ?res) = Some (numOr (height opts) 630)"
    "\<not> truthy (width opts) \<longrightarrow> attr_width (attributes ?res) = Some 1200"
    "\<not> truthy (height opts) \<longrightarrow> attr_height (attributes ?res) = Some 630"
    "srcset_values (srcSet ?res) = []" "srcset_attribute (srcSet ?res) = []"
    by (auto simp: mockResult_def truthy_def numOr_def split: option.splits)
  have effects: "console ?st' = console st @
      [Warn (''Image optimization: width and height are required for public/ folder images: '' @ p)]"
    "getImageCalls ?st' = getImageCalls st"
    by simp_all
  from first stored later shape effects show ?thesis
    by blast
qed

text \<open>
  The request for \<^verbatim>\<open>/local.png\<close> with a width of 400 and no height: one warning, the
  result 400 by 630, and the same result without a further warning when the request
  comes again after a request for a remote image.
\<close>

theorem C4_missing_dimensions_witness:
  "src reqLocalWidthOnly = Path ''/local.png''
   \<and> \<not> startsWith ''/local.png'' ''http://'' \<and> \<not> startsWith ''/local.png'' ''https://''
   \<and> \<not> truthy (height reqLocalWidthOnly)
   \<and> imageCache emptyState (getCacheKey reqLocalWidthOnly) = None
   \<and> (\<exists>res st'. optimizeImage encodingGetImage reqLocalWidthOnly emptyState = (Inr res, st')
     \<and> console st' =
          [Warn ''Image optimization: width and height are required for public/ folder images: /local.png'']
     \<and> getImageCalls st' = []
     \<and> res_src res = ''/local.png''
     \<and> attr_width (attributes res) = Some 400 \<and> attr_height (attributes res) = Some 630
     \<and> srcset_values (srcSet res) = [] \<and> srcset_attribute (srcSet res) = []
     \<and> imageCache st' (getCacheKey reqLocalWidthOnly) = Some res
     \<and> optimizeImage encodingGetImage reqLocalWidthOnly
          (runCalls encodingGetImage [Optimize reqRemote] st')
        = (Inr res, runCalls encodingGetImage [Optimize reqRemote] st'))"
proof -
  have h1: "src reqLocalWidthOnly = Path ''/local.png''"
    by (simp add: reqLocalWidthOnly_def)
  have h2: "\<not> startsWith ''/local.png'' ''http://''"
    by (simp add: startsWith_def)
  have h3: "\<not> startsWith ''/local.png'' ''https://''"
    by (simp add: startsWith_def)
  have h4: "\<not> truthy (height reqLocalWidthOnly)"
    by (simp add: reqLocalWidthOnly_def truthy_def)
  then have h4': "\<not> truthy (width reqLocalWidthOnly) \<or> \<not> truthy (height reqLocalWidthOnly)"
    by (rule disjI2)
  have h5: "imageCache emptyState (getCacheKey reqLocalWidthOnly) = None"
    by (rule miss_emptyState)
  have dims: "numOr (width reqLocalWidthOnly) 1200 = 400"
    "numOr (height reqLocalWidthOnly) 630 = 630"
    by (simp_all add: reqLocalWidthOnly_def numOr_def)
  from C4_missing_dimensions [where g = encodingGetImage and g' = encodingGetImage
      and g'' = encodingGetImage, OF h1 h2 h3 h4' h5]
  obtain res st' where "optimizeImage encodingGetImage reqLocalWidthOnly emptyState = (Inr res, st')"
    and "console st' = console emptyState @
          [Warn (''Image optimization: width and height are required for public/ folder images: ''
                  @ ''/local.png'')]"
    and "getImageCalls st' = getImageCalls emptyState"
    and "res_src res = ''/local.png''"
    and "attr_width (attributes res) = Some (numOr (width reqLocalWidthOnly) 1200)"
    and "attr_height (attributes res) = Some (numOr (height reqLocalWidthOnly) 630)"
    and "srcset_values (srcSet res) = []" and "srcset_attribute (srcSet res) = []"
    and "imageCache st' (getCacheKey reqLocalWidthOnly) = Some res"
    and "optimizeImage encodingGetImage reqLocalWidthOnly
          (runCalls encodingGetImage [Optimize reqRemote] st')
        = (Inr res, runCalls encodingGetImage [Optimize reqRemote] st')"
    by blast
  then have "\<exists>res st'. optimizeImage encodingGetImage reqLocalWidthOnly emptyState = (Inr res, st')
     \<and> console st' =
          [Warn ''Image optimization: width and height are required for public/ folder images: /local.png'']
     \<and> getImageCalls st' = []
     \<and> res_src res = ''/local.png''
     \<and> attr_width (attributes res) = Some 400 \<and> attr_height (attributes res) = Some 630
     \<and> srcset_values (srcSet res) = [] \<and> srcset_attribute (srcSet res) = []
     \<and> imageCache st' (getCacheKey reqLocalWidthOnly) = Some res
     \<and> optimizeImage encodingGetImage reqLocalWidthOnly
          (runCalls encodingGetImage [Optimize reqRemote] st')
        = (Inr res, runCalls encodingGetImage [Optimize reqRemote] st')"
    by (simp add: dims emptyState_def)
  with h1 h2 h3 h4 h5 show ?thesis
    by (intro conjI)
qed

text \<open>
  The claim as stated fails in two ways. It fails for a request whose key is already
  populated: the first call for \<^verbatim>\<open>/local.png\<close> without dimensions emits the warning, and
  the second call for it emits none. And it fails for a request that lacks one dimension
  only: the request for \<^verbatim>\<open>/local.png\<close> with a width of 400 and no height takes the same
  branch, from the empty cache, and its result is 400 by 630, not 1200 by 630.
\<close>

theorem C4_counterexample:
  "console afterLocal =
     [Warn ''Image optimization: width and height are required for public/ folder images: /local.png'']
   \<and> console (snd (optimizeImage failingGetImage reqLocal afterLocal)) = console afterLocal
   \<and> length (console (snd (optimizeImage failingGetImage reqLocal afterLocal)))
       \<noteq> length (console afterLocal) + 1
   \<and> map_option attributes (returned (optimizeImage failingGetImage reqLocalWidthOnly emptyState))
       = Some \<lparr>attr_width = Some 400, attr_height = Some 630\<rparr>
   \<and> map_option attributes (returned (optimizeImage failingGetImage reqLocalWidthOnly emptyState))
       \<noteq> Some \<lparr>attr_width = Some 1200, attr_height = Some 630\<rparr>"
proof -
  have h: "\<not> truthy (width reqLocal) \<or> \<not> truthy (height reqLocal)"
    by (simp add: reqLocal_def truthy_def)
  have p: "src reqLocal = Path ''/local.png''"
    by (simp add: reqLocal_def)
  have n1: "\<not> startsWith ''/local.png'' ''http://''" and n2: "\<not> startsWith ''/local.png'' ''https://''"
    by (simp_all add: startsWith_def)
  note first = optimizeImage_missing_dimensions [OF miss_emptyState p n1 n2 h, of failingGetImage]
  from first have log: "console afterLocal =
     [Warn ''Image optimization: width and height are required for public/ folder images: /local.png'']"
    by (simp add: afterLocal_def emptyState_def)
  from first have "imageCache afterLocal (getCacheKey reqLocal)
      = Some (mockResult ''/local.png'' (Path ''/local.png'')
          (Some (numOr (width reqLocal) 1200)) (Some (numOr (height reqLocal) 630)))"
    by (simp add: afterLocal_def)
  then have second: "optimizeImage failingGetImage reqLocal afterLocal
      = (Inr (mockResult ''/local.png'' (Path ''/local.png'')
          (Some (numOr (width reqLocal) 1200)) (Some (numOr (height reqLocal) 630))), afterLocal)"
    by (rule optimizeImage_hit)
  have h': "\<not> truthy (width reqLocalWidthOnly) \<or> \<not> truthy (height reqLocalWidthOnly)"
    by (simp add: reqLocalWidthOnly_def truthy_def)
  have p': "src reqLocalWidthOnly = Path ''/local.png''"
    by (simp add: reqLocalWidthOnly_def)
  have dims: "numOr (width reqLocalWidthOnly) 1200 = 400"
    "numOr (height reqLocalWidthOnly) 630 = 630"
    by (simp_all add: reqLocalWidthOnly_def numOr_def)
  from optimizeImage_missing_dimensions [OF miss_emptyState p' n1 n2 h', of failingGetImage]
  have one: "map_option attributes (returned (optimizeImage failingGetImage reqLocalWidthOnly emptyState))
       = Some \<lparr>attr_width = Some 400, attr_height = Some 630\<rparr>"
    by (simp add: returned_def mockResult_def dims)
  have other: "map_option attributes (returned (optimizeImage failingGetImage reqLocalWidthOnly emptyState))
       \<noteq> Some \<lparr>attr_width = Some 1200, attr_height = Some 630\<rparr>"
    unfolding one by simp
  from second have same: "console (snd (optimizeImage failingGetImage reqLocal afterLocal))
      = console afterLocal"
    by simp
  then have fewer: "length (console (snd (optimizeImage failingGetImage reqLocal afterLocal)))
       \<noteq> length (console afterLocal) + 1"
    by simp
  from log same fewer one other show ?thesis
    by (intro conjI)
qed



subsection \<open>Path validation\<close>

text \<open>
  Claim C9. \<^verbatim>\<open>isValidImagePath\<close> returns true exactly when its argument is present and
  starts with \<^verbatim>\<open>http://\<close>, \<^verbatim>\<open>https://\<close>, \<^verbatim>\<open>/\<close>, \<^verbatim>\<open>./\<close> or \<^verbatim>\<open>../\<close>, and false otherwise,
  also for an absent argument. It is a function of its argument alone: it neither reads
  nor writes the cache.
\<close>

theorem C9_valid_image_path:
  "isValidImagePath path =
     (\<exists>p. path = Some p
        \<and> (prefix ''http://'' p \<or> prefix ''https://'' p \<or> prefix ''/'' p
            \<or> prefix ''./'' p \<or> prefix ''../'' p))"
  by (cases path) (auto simp: isValidImagePath_def startsWith_prefix)

theorem C9_valid_image_path_witness:
  "isValidImagePath (Some ''https://x/y.png'') \<and> isValidImagePath (Some ''/a/b.png'')
   \<and> isValidImagePath (Some ''./a.png'') \<and> \<not> isValidImagePath (Some ''a.png'')
   \<and> \<not> isValidImagePath None"
  by (simp add: C9_valid_image_path)

end
